theory Spec2Isabelle
  imports Complex_Main
begin

section \<open>Resampling workflows of qsiprep (workflows/dwi/resampling.py)\<close>

text \<open>
  The module builds nipype workflows: it creates node objects, sets inputs on them and
  declares connections between their output and input ports. The embedding keeps the node
  objects in a store indexed by the Python variable each object is bound to (every such
  variable is assigned once), so that an input set on a node after it was connected is
  seen by the graph, as it is through the shared object in Python. Exceptions are values
  of a sum type.
\<close>

subsection \<open>Python values and exceptions\<close>

text \<open>The values that travel through the connections: \<open>None\<close>, strings (file names),
  booleans, integers and lists.\<close>

datatype pyval = PNone | PStr string | PBool bool | PInt int | PList "pyval list"

datatype error = NameError string | KeyError string | IndexError | TypeError

definition bind :: "error + 'a \<Rightarrow> ('a \<Rightarrow> error + 'b) \<Rightarrow> error + 'b" where
  "bind m f = (case m of Inl e \<Rightarrow> Inl e | Inr x \<Rightarrow> f x)"

subsection \<open>The list-shaping helpers\<close>

text \<open>\<^verbatim>\<open>def _first(inlist): return inlist[0]\<close> (module level). Indexing raises
  \<open>IndexError\<close> on an empty sequence and \<open>TypeError\<close> on a value that cannot be indexed.\<close>

fun first :: "pyval \<Rightarrow> error + pyval" where
  "first (PList []) = Inl IndexError"
| "first (PList (x # xs)) = Inr x"
| "first (PStr []) = Inl IndexError"
| "first (PStr (c # cs)) = Inr (PStr [c])"
| "first PNone = Inl TypeError"
| "first (PBool b) = Inl TypeError"
| "first (PInt i) = Inl TypeError"

text \<open>\<^verbatim>\<open>_aslist\<close> as defined inside \<^verbatim>\<open>init_bold_mni_trans_wf\<close>:
  \<^verbatim>\<open>if isinstance(in_value, list): return in_value; return [in_value]\<close>.\<close>

fun isinstance_list :: "pyval \<Rightarrow> bool" where
  "isinstance_list (PList xs) = True"
| "isinstance_list _ = False"

definition aslist_mni :: "pyval \<Rightarrow> pyval" where
  "aslist_mni in_value = (if isinstance_list in_value then in_value else PList [in_value])"

text \<open>\<^verbatim>\<open>_aslist\<close> as defined inside \<^verbatim>\<open>init_dwi_preproc_trans_wf\<close>:
  \<^verbatim>\<open>return [val]\<close>.\<close>

definition aslist_dwi :: "pyval \<Rightarrow> pyval" where
  "aslist_dwi val = PList [val]"

text \<open>A connection may name a function that the engine applies to the source value
  before it delivers it: \<^verbatim>\<open>(('bold_split', _first), 'moving_image')\<close>.\<close>

datatype connfn = Fn_first | Fn_aslist_mni | Fn_aslist_dwi

fun apply_fn :: "connfn option \<Rightarrow> pyval \<Rightarrow> error + pyval" where
  "apply_fn None v = Inr v"
| "apply_fn (Some Fn_first) v = first v"
| "apply_fn (Some Fn_aslist_mni) v = Inr (aslist_mni v)"
| "apply_fn (Some Fn_aslist_dwi) v = Inr (aslist_dwi v)"

subsection \<open>Strings and paths\<close>

text \<open>\<^verbatim>\<open>'%d' % n\<close> for a non-negative integer.\<close>

fun decimal :: "nat \<Rightarrow> string" where
  "decimal n = (if n < 10 then [''0123456789'' ! n]
                else decimal (n div 10) @ [''0123456789'' ! (n mod 10)])"

declare decimal.simps [simp del]

text \<open>\<^verbatim>\<open>os.path.join(a, b)\<close> on POSIX.\<close>

definition op_join :: "string \<Rightarrow> string \<Rightarrow> string" where
  "op_join a b =
     (if b \<noteq> [] \<and> hd b = CHR ''/'' then b
      else if a = [] \<or> last a = CHR ''/'' then a @ b
      else a @ ''/'' @ b)"

subsection \<open>Nodes, connections and the workflow under construction\<close>

datatype interface =
    IdentityInterface "string list"
  | GenerateSamplingReference
  | ApplyTransforms
  | MultiApplyTransforms
  | Merge_niu nat
  | Merge
  | FSLSplit
  | Autobox
  | Warp
  | Resample
  | NiftiInfo
  | NestedWorkflow

text \<open>The numbers that become node settings: a value the caller passed, an integer, a
  float literal of the source by its text, and a product kept as it is written. The model
  does no floating-point arithmetic, so it says nothing about how a product rounds.\<close>

datatype pynum = Num real | IntNum int | FloatLit string | Times pynum pynum

text \<open>A node object. \<open>inputs\<close> are the inputs set at construction of the interface or
  assigned later through \<^verbatim>\<open>node.inputs.x = v\<close>; \<open>desc\<close> is the \<^verbatim>\<open>__desc__\<close>
  of a nested workflow.\<close>

record node =
  node_name :: string
  interface :: interface
  inputs :: "(string \<times> pyval) list"
  mem_gb :: "pynum option"
  n_procs :: "int option"
  run_without_submitting :: bool
  desc :: "string option"

definition Node ::
  "interface \<Rightarrow> (string \<times> pyval) list \<Rightarrow> string \<Rightarrow> pynum option \<Rightarrow> int option \<Rightarrow> bool \<Rightarrow> node" where
  "Node i ins nm mem np rws =
     \<lparr>node_name = nm, interface = i, inputs = ins, mem_gb = mem, n_procs = np,
      run_without_submitting = rws, desc = None\<rparr>"

text \<open>The input slots \<^verbatim>\<open>in1 .. inN\<close> that \<^verbatim>\<open>niu.Merge(N)\<close> declares.\<close>

definition merge_slots :: "nat \<Rightarrow> string list" where
  "merge_slots n = map (\<lambda>i. ''in'' @ decimal (i + 1)) [0..<n]"

fun input_slots :: "interface \<Rightarrow> string list" where
  "input_slots (Merge_niu n) = merge_slots n"
| "input_slots (IdentityInterface fs) = fs"
| "input_slots _ = []"

text \<open>The Python variables that hold node objects in the two functions.\<close>

datatype var =
    Inputnode | Outputnode | Gen_ref | Mask_mni_tfm | Mask_merge_tfms | Merge_xforms
  | Bold_to_mni_transform | Merge_node | Gen_final_ref
  | Autobox_t1 | Deoblique_autobox | Resample_to_dwi | Dwi_info
  | Bold_transform | Bold_reference_wf | Bold_split

record connection =
  c_src :: var
  c_out :: string
  c_fn :: "connfn option"
  c_dst :: var
  c_in :: string

record builder =
  b_name :: string
  b_desc :: string
  store :: "var \<Rightarrow> node option"
  b_nodes :: "var list"
  b_conns :: "connection list"

definition Workflow :: "string \<Rightarrow> builder" where
  "Workflow nm = \<lparr>b_name = nm, b_desc = [], store = (\<lambda>v. None), b_nodes = [], b_conns = []\<rparr>"

definition new :: "var \<Rightarrow> node \<Rightarrow> builder \<Rightarrow> builder" where
  "new v n b = b\<lparr>store := (store b)(v \<mapsto> n)\<rparr>"

fun assoc_set :: "string \<Rightarrow> pyval \<Rightarrow> (string \<times> pyval) list \<Rightarrow> (string \<times> pyval) list" where
  "assoc_set k x [] = [(k, x)]"
| "assoc_set k x ((k', y) # kvs) = (if k = k' then (k, x) # kvs else (k', y) # assoc_set k x kvs)"

text \<open>\<^verbatim>\<open>node.inputs.f = x\<close>, on the object whatever already refers to it.\<close>

definition set_input :: "var \<Rightarrow> string \<Rightarrow> pyval \<Rightarrow> builder \<Rightarrow> builder" where
  "set_input v f x b =
     (case store b v of
        None \<Rightarrow> b
      | Some n \<Rightarrow> b\<lparr>store := (store b)(v \<mapsto> n\<lparr>inputs := assoc_set f x (inputs n)\<rparr>)\<rparr>)"

definition set_desc :: "var \<Rightarrow> string option \<Rightarrow> builder \<Rightarrow> builder" where
  "set_desc v d b =
     (case store b v of
        None \<Rightarrow> b
      | Some n \<Rightarrow> b\<lparr>store := (store b)(v \<mapsto> n\<lparr>desc := d\<rparr>)\<rparr>)"

definition add_node :: "var \<Rightarrow> var list \<Rightarrow> var list" where
  "add_node v vs = (if v \<in> set vs then vs else vs @ [v])"

text \<open>\<^verbatim>\<open>workflow.connect([(src, dst, [(out, in), ...]), ...])\<close>: both nodes join the graph
  and one edge is recorded per port pair, in the order written. A source port is a field
  name, or a field name with a function.\<close>

fun connect1 :: "var \<times> var \<times> ((string \<times> connfn option) \<times> string) list \<Rightarrow> builder \<Rightarrow> builder" where
  "connect1 (s, d, ports) b =
     b\<lparr>b_nodes := add_node d (add_node s (b_nodes b)),
       b_conns := b_conns b @
         map (\<lambda>((out, fn), inp). \<lparr>c_src = s, c_out = out, c_fn = fn, c_dst = d, c_in = inp\<rparr>) ports\<rparr>"

fun connect :: "(var \<times> var \<times> ((string \<times> connfn option) \<times> string) list) list \<Rightarrow> builder \<Rightarrow> builder" where
  "connect [] b = b"
| "connect (c # cs) b = connect cs (connect1 c b)"

text \<open>The finished workflow: the nodes of the graph with the state their objects have
  when the function returns, and the connections.\<close>

record workflow =
  wf_name :: string
  wf_desc :: string
  wf_nodes :: "(var \<times> node) list"
  wf_conns :: "connection list"

definition finish :: "builder \<Rightarrow> workflow" where
  "finish b =
     \<lparr>wf_name = b_name b, wf_desc = b_desc b,
      wf_nodes = concat (map (\<lambda>v. case store b v of None \<Rightarrow> [] | Some n \<Rightarrow> [(v, n)]) (b_nodes b)),
      wf_conns = b_conns b\<rparr>"

definition wf_node :: "workflow \<Rightarrow> var \<Rightarrow> node option" where
  "wf_node w v = map_of (wf_nodes w) v"

text \<open>The edges of the graph between nodes, and the connections into one input port.\<close>

definition wf_edges :: "workflow \<Rightarrow> (var \<times> var) set" where
  "wf_edges w = set (map (\<lambda>c. (c_src c, c_dst c)) (wf_conns w))"

definition feeds :: "workflow \<Rightarrow> var \<Rightarrow> string \<Rightarrow> (var \<times> string \<times> connfn option) list" where
  "feeds w d inp =
     map (\<lambda>c. (c_src c, c_out c, c_fn c)) (filter (\<lambda>c. c_dst c = d \<and> c_in c = inp) (wf_conns w))"

subsection \<open>The module namespace\<close>

text \<open>The names bound at module level by the import statements, the assignment of
  \<^verbatim>\<open>DEFAULT_MEMORY_MIN_GB\<close> and the three \<^verbatim>\<open>def\<close>s.\<close>

definition module_globals :: "string list" where
  "module_globals =
     [''op'', ''pe'', ''niu'', ''fs'', ''FSLSplit'', ''nid'', ''GenerateSamplingReference'',
      ''ApplyTransforms'', ''Workflow'', ''MultiApplyTransforms'', ''Merge'', ''TEMPLATE_MAP'',
      ''init_bold_reference_wf'', ''DEFAULT_MEMORY_MIN_GB'', ''init_bold_mni_trans_wf'',
      ''init_dwi_preproc_trans_wf'', ''_first'']"

text \<open>Evaluating global names in order: the first one that is not bound raises.\<close>

fun lookups :: "string list \<Rightarrow> string list \<Rightarrow> error + unit" where
  "lookups g [] = Inr ()"
| "lookups g (n # ns) = (if n \<in> set g then lookups g ns else Inl (NameError n))"

definition DEFAULT_MEMORY_MIN_GB :: pynum where
  "DEFAULT_MEMORY_MIN_GB = FloatLit ''0.01''"

text \<open>What the module takes from code that is not part of this file: the table
  \<^verbatim>\<open>TEMPLATE_MAP\<close> of \<^verbatim>\<open>..anatomical\<close>, \<^verbatim>\<open>niworkflows.data.get_dataset\<close>, and
  \<^verbatim>\<open>init_bold_reference_wf\<close> of \<^verbatim>\<open>.util\<close>, whose result enters the graph as one
  nested node (arguments: \<^verbatim>\<open>omp_nthreads\<close> and \<^verbatim>\<open>pre_mask\<close> when it is passed).\<close>

record env =
  TEMPLATE_MAP :: "(string \<times> string) list"
  get_dataset :: "string \<Rightarrow> string"
  init_bold_reference_wf :: "int \<Rightarrow> bool option \<Rightarrow> node"

subsection \<open>\<^verbatim>\<open>init_bold_mni_trans_wf\<close>\<close>

text \<open>The graph construction of the body, statement by statement, for the entry
  \<open>template_str\<close> that \<^verbatim>\<open>TEMPLATE_MAP[template]\<close> gave. (\<open>mem\<close> is the value of
  the parameter \<^verbatim>\<open>mem_gb\<close>.) The function itself, below, evaluates the global names it uses in
  order, each at its first use, and raises \<open>KeyError\<close> when \<^verbatim>\<open>template\<close> is not a
  key of the table.\<close>

definition bold_mni_trans_graph ::
  "env \<Rightarrow> string \<Rightarrow> string \<Rightarrow> real \<Rightarrow> int \<Rightarrow> string \<Rightarrow> string \<Rightarrow> bool \<Rightarrow> bool \<Rightarrow> workflow" where
  "bold_mni_trans_graph e template template_str mem omp_nthreads name template_out_grid
       use_compression use_fieldwarp =
   finish (
     let w = Workflow name;
         w = w\<lparr>b_desc := ''The BOLD time-series were resampled to '' @ template
                  @ '' standard space,'' @ [CHR 0x0A]
                  @ ''generating a *preprocessed BOLD run in '' @ template @ '' space*.''
                  @ [CHR 0x0A]\<rparr>;
         w = new Inputnode
               (Node (IdentityInterface
                        [''itk_bold_to_t1'', ''t1_2_mni_forward_transform'', ''name_source'',
                         ''bold_split'', ''bold_mask'', ''hmc_xforms'', ''fieldwarp''])
                  [] ''inputnode'' None None False) w;
         w = new Outputnode
               (Node (IdentityInterface [''bold_mni'', ''bold_mni_ref'', ''bold_mask_mni''])
                  [] ''outputnode'' None None False) w;
         w = new Gen_ref (Node GenerateSamplingReference [] ''gen_ref'' (Some (FloatLit ''0.3'')) None False) w;
         w = set_input Gen_ref ''fixed_image''
               (PStr (op_join (get_dataset e template_str) ''1mm_T1.nii.gz'')) w;
         w = new Mask_mni_tfm
               (Node ApplyTransforms
                  [(''interpolation'', PStr ''MultiLabel''), (''float'', PBool True)]
                  ''mask_mni_tfm'' (Some (IntNum 1)) None False) w;
         w = new Mask_merge_tfms
               (Node (Merge_niu 2) [] ''mask_merge_tfms'' (Some DEFAULT_MEMORY_MIN_GB) None True) w;
         nxforms = (if use_fieldwarp then 4 else 3);
         w = new Merge_xforms
               (Node (Merge_niu nxforms) [] ''merge_xforms'' (Some DEFAULT_MEMORY_MIN_GB) None
                  True) w;
         w = connect [(Inputnode, Merge_xforms,
                        [((''hmc_xforms'', None), ''in'' @ decimal nxforms)])] w;
         w = (if use_fieldwarp
              then connect [(Inputnode, Merge_xforms, [((''fieldwarp'', None), ''in3'')])] w
              else w);
         w = connect
               [(Inputnode, Gen_ref, [((''bold_split'', Some Fn_first), ''moving_image'')]),
                (Inputnode, Mask_mni_tfm, [((''bold_mask'', None), ''input_image'')]),
                (Inputnode, Mask_merge_tfms,
                   [((''t1_2_mni_forward_transform'', None), ''in1''),
                    ((''itk_bold_to_t1'', Some Fn_aslist_mni), ''in2'')]),
                (Mask_merge_tfms, Mask_mni_tfm, [((''out'', None), ''transforms'')]),
                (Mask_mni_tfm, Outputnode, [((''output_image'', None), ''bold_mask_mni'')])] w;
         w = new Bold_to_mni_transform
               (Node MultiApplyTransforms
                  [(''interpolation'', PStr ''LanczosWindowedSinc''), (''float'', PBool True),
                   (''copy_dtype'', PBool True)]
                  ''bold_to_mni_transform'' (Some (Times (Times (Num mem) (IntNum 3)) (IntNum omp_nthreads)))
                  (Some omp_nthreads) False) w;
         w = new Merge_node
               (Node Merge [(''compress'', PBool use_compression)] ''merge'' (Some (Times (Num mem) (IntNum 3)))
                  None False) w;
         w = new Gen_final_ref (init_bold_reference_wf e omp_nthreads (Some True)) w;
         w = connect
               [(Inputnode, Merge_xforms,
                   [((''t1_2_mni_forward_transform'', None), ''in1''),
                    ((''itk_bold_to_t1'', Some Fn_aslist_mni), ''in2'')]),
                (Merge_xforms, Bold_to_mni_transform, [((''out'', None), ''transforms'')]),
                (Inputnode, Merge_node, [((''name_source'', None), ''header_source'')]),
                (Inputnode, Bold_to_mni_transform, [((''bold_split'', None), ''input_image'')]),
                (Bold_to_mni_transform, Merge_node, [((''out_files'', None), ''in_files'')]),
                (Merge_node, Gen_final_ref, [((''out_file'', None), ''inputnode.bold_file'')]),
                (Mask_mni_tfm, Gen_final_ref,
                   [((''output_image'', None), ''inputnode.bold_mask'')]),
                (Merge_node, Outputnode, [((''out_file'', None), ''bold_mni'')]),
                (Gen_final_ref, Outputnode,
                   [((''outputnode.ref_image'', None), ''bold_mni_ref'')])] w
     in
       if template_out_grid = ''native'' then
         connect
           [(Gen_ref, Mask_mni_tfm, [((''out_file'', None), ''reference_image'')]),
            (Gen_ref, Bold_to_mni_transform, [((''out_file'', None), ''reference_image'')])] w
       else if template_out_grid = ''1mm'' \<or> template_out_grid = ''2mm'' then
         set_input Bold_to_mni_transform ''reference_image''
           (PStr (op_join (get_dataset e template_str) (template_out_grid @ ''_T1.nii.gz'')))
           (set_input Mask_mni_tfm ''reference_image''
              (PStr (op_join (get_dataset e template_str)
                       (template_out_grid @ ''_brainmask.nii.gz''))) w)
       else
         set_input Bold_to_mni_transform ''reference_image'' (PStr template_out_grid)
           (set_input Mask_mni_tfm ''reference_image'' (PStr template_out_grid) w))"

definition init_bold_mni_trans_wf ::
  "env \<Rightarrow> string \<Rightarrow> real \<Rightarrow> int \<Rightarrow> string \<Rightarrow> string \<Rightarrow> bool \<Rightarrow> bool \<Rightarrow> error + workflow" where
  "init_bold_mni_trans_wf e template mem omp_nthreads name template_out_grid use_compression
       use_fieldwarp =
   bind (lookups module_globals
           [''Workflow'', ''pe'', ''niu'', ''GenerateSamplingReference'', ''TEMPLATE_MAP'']) (\<lambda>_.
   case map_of (TEMPLATE_MAP e) template of
     None \<Rightarrow> Inl (KeyError template)
   | Some template_str \<Rightarrow>
   bind (lookups module_globals
           [''op'', ''nid'', ''ApplyTransforms'', ''DEFAULT_MEMORY_MIN_GB'', ''_first'',
            ''MultiApplyTransforms'', ''Merge'', ''init_bold_reference_wf'']) (\<lambda>_.
   Inr (bold_mni_trans_graph e template template_str mem omp_nthreads name template_out_grid
          use_compression use_fieldwarp)))"

subsection \<open>\<^verbatim>\<open>init_dwi_preproc_trans_wf\<close>\<close>

text \<open>The graph construction of the body, once every name it uses has been resolved.
  The four nodes created first are bound to variables and never connected.\<close>

definition dwi_preproc_trans_graph ::
  "env \<Rightarrow> real \<Rightarrow> int \<Rightarrow> string \<Rightarrow> bool \<Rightarrow> bool \<Rightarrow> bool \<Rightarrow> string \<Rightarrow> workflow" where
  "dwi_preproc_trans_graph e mem omp_nthreads name use_compression use_fieldwarp split_file
       interpolation =
   finish (
     let w = Workflow name;
         w = w\<lparr>b_desc :=
                ''The BOLD time-series (including slice-timing correction when applied)''
                @ [CHR 0x0A] @ ''were resampled onto their original, native space by applying''
                @ [CHR 0x0A]
                @ (if use_fieldwarp
                   then ''a single, composite transform to correct for head-motion and''
                        @ [CHR 0x0A] @ ''susceptibility distortions''
                   else ''the transforms to correct for head-motion'')
                @ ''.'' @ [CHR 0x0A]
                @ ''These resampled BOLD time-series will be referred to as *preprocessed''
                @ [CHR 0x0A] @ ''BOLD in original space*, or just *preprocessed BOLD*.''
                @ [CHR 0x0A]\<rparr>;
         w = new Autobox_t1 (Node Autobox [] ''autobox_t1'' None None False) w;
         w = set_input Autobox_t1 ''outputtype'' (PStr ''NIFTI_GZ'') w;
         w = set_input Autobox_t1 ''padding'' (PInt 5) w;
         w = new Deoblique_autobox (Node Warp [] ''deoblique_autobox'' None None False) w;
         w = set_input Deoblique_autobox ''deoblique'' (PBool True) w;
         w = set_input Deoblique_autobox ''outputtype'' (PStr ''NIFTI_GZ'') w;
         w = new Resample_to_dwi (Node Resample [] ''resample_to_dwi'' None None False) w;
         w = set_input Resample_to_dwi ''outputtype'' (PStr ''NIFTI_GZ'') w;
         w = new Dwi_info (Node NiftiInfo [] ''dwi_info'' None None False) w;
         w = new Inputnode
               (Node (IdentityInterface
                        [''name_source'', ''bold_file'', ''bold_mask'', ''hmc_xforms'',
                         ''fieldwarp''])
                  [] ''inputnode'' None None False) w;
         w = new Outputnode
               (Node (IdentityInterface [''bold'', ''bold_mask'', ''bold_ref'', ''bold_ref_brain''])
                  [] ''outputnode'' None None False) w;
         w = new Bold_transform
               (Node MultiApplyTransforms
                  [(''interpolation'', PStr interpolation), (''float'', PBool True),
                   (''copy_dtype'', PBool True)]
                  ''bold_transform'' (Some (Times (Times (Num mem) (IntNum 3)) (IntNum omp_nthreads))) (Some omp_nthreads)
                  False) w;
         w = new Merge_node
               (Node Merge [(''compress'', PBool use_compression)] ''merge'' (Some (Times (Num mem) (IntNum 3)))
                  None False) w;
         w = new Bold_reference_wf (init_bold_reference_wf e omp_nthreads None) w;
         w = set_desc Bold_reference_wf None w;
         w = connect
               [(Inputnode, Merge_node, [((''name_source'', None), ''header_source'')]),
                (Bold_transform, Merge_node, [((''out_files'', None), ''in_files'')]),
                (Merge_node, Bold_reference_wf,
                   [((''out_file'', None), ''inputnode.bold_file'')]),
                (Merge_node, Outputnode, [((''out_file'', None), ''bold'')]),
                (Bold_reference_wf, Outputnode,
                   [((''outputnode.ref_image'', None), ''bold_ref''),
                    ((''outputnode.ref_image_brain'', None), ''bold_ref_brain''),
                    ((''outputnode.bold_mask'', None), ''bold_mask'')])] w;
         w = (if split_file then
                connect
                  [(Inputnode, Bold_split, [((''bold_file'', None), ''in_file'')]),
                   (Bold_split, Bold_transform,
                      [((''out_files'', None), ''input_image''),
                       ((''out_files'', Some Fn_first), ''reference_image'')])]
                  (new Bold_split
                     (Node FSLSplit [(''dimension'', PStr ''t'')] ''bold_split''
                        (Some (Times (Num mem) (IntNum 3))) None False) w)
              else
                connect
                  [(Inputnode, Bold_transform,
                      [((''bold_file'', None), ''input_image''),
                       ((''bold_file'', Some Fn_first), ''reference_image'')])] w)
     in
       if use_fieldwarp then
         connect
           [(Inputnode, Merge_xforms,
               [((''fieldwarp'', None), ''in1''), ((''hmc_xforms'', None), ''in2'')]),
            (Merge_xforms, Bold_transform, [((''out'', None), ''transforms'')])]
           (new Merge_xforms
              (Node (Merge_niu 2) [] ''merge_xforms'' (Some DEFAULT_MEMORY_MIN_GB) None True) w)
       else
         connect
           [(Inputnode, Bold_transform,
               [((''hmc_xforms'', Some Fn_aslist_dwi), ''transforms'')])] w)"

text \<open>The global names the body evaluates, each at its first use, in order: line 261
  (\<^verbatim>\<open>Workflow\<close>), line 275 (\<^verbatim>\<open>pe\<close>, \<^verbatim>\<open>afni\<close>), line 283 (\<^verbatim>\<open>NiftiInfo\<close>),
  then the rest, with those of the branches taken.\<close>

definition dwi_preproc_trans_names :: "bool \<Rightarrow> bool \<Rightarrow> string list" where
  "dwi_preproc_trans_names use_fieldwarp split_file =
     [''Workflow'', ''pe'', ''afni'', ''NiftiInfo'', ''niu'', ''MultiApplyTransforms'', ''Merge'',
      ''init_bold_reference_wf'']
     @ (if split_file then [''FSLSplit'', ''_first''] else [''_first''])
     @ (if use_fieldwarp then [''DEFAULT_MEMORY_MIN_GB''] else [])"

text \<open>The function in a module namespace \<open>g\<close>, and the function of the module as it is.\<close>

definition init_dwi_preproc_trans_wf_in ::
  "string list \<Rightarrow> env \<Rightarrow> real \<Rightarrow> int \<Rightarrow> string \<Rightarrow> bool \<Rightarrow> bool \<Rightarrow> bool \<Rightarrow> string
     \<Rightarrow> error + workflow" where
  "init_dwi_preproc_trans_wf_in g e mem omp_nthreads name use_compression use_fieldwarp
       split_file interpolation =
   bind (lookups g (dwi_preproc_trans_names use_fieldwarp split_file)) (\<lambda>_.
   Inr (dwi_preproc_trans_graph e mem omp_nthreads name use_compression use_fieldwarp
          split_file interpolation))"

definition init_dwi_preproc_trans_wf ::
  "env \<Rightarrow> real \<Rightarrow> int \<Rightarrow> string \<Rightarrow> bool \<Rightarrow> bool \<Rightarrow> bool \<Rightarrow> string \<Rightarrow> error + workflow" where
  "init_dwi_preproc_trans_wf = init_dwi_preproc_trans_wf_in module_globals"

subsection \<open>Observations on a workflow, and an environment for concrete instances\<close>

text \<open>The input slots of \<open>d\<close> that the output port \<open>out\<close> of \<open>s\<close> is connected to.\<close>

definition wired :: "workflow \<Rightarrow> var \<Rightarrow> string \<Rightarrow> var \<Rightarrow> string list" where
  "wired w s out d =
     map c_in (filter (\<lambda>c. c_src c = s \<and> c_out c = out \<and> c_dst c = d) (wf_conns w))"

text \<open>A numbering of the nodes of \<^verbatim>\<open>init_bold_mni_trans_wf\<close> along the data flow.\<close>

fun topo_rank :: "var \<Rightarrow> nat" where
  "topo_rank Inputnode = 0"
| "topo_rank Gen_ref = 1"
| "topo_rank Mask_merge_tfms = 1"
| "topo_rank Merge_xforms = 1"
| "topo_rank Mask_mni_tfm = 2"
| "topo_rank Bold_to_mni_transform = 2"
| "topo_rank Merge_node = 3"
| "topo_rank Gen_final_ref = 4"
| "topo_rank Outputnode = 5"
| "topo_rank _ = 0"

text \<open>An environment with the template of the docstring example, a dataset directory and
  a reference workflow that is a plain nested node.\<close>

definition example_env :: env where
  "example_env =
     \<lparr>TEMPLATE_MAP = [(''MNI152NLin2009cAsym'', ''mni_icbm152_nlin_asym_09c'')],
      get_dataset = (\<lambda>s. ''/templates/'' @ s),
      init_bold_reference_wf =
        (\<lambda>n p. Node NestedWorkflow [] ''bold_reference_wf'' None None False)\<rparr>"



section \<open>Evaluation lemmas\<close>

lemma decimal_3: "decimal 3 = ''3''"
  by (simp add: decimal.simps)
lemma decimal_4: "decimal 4 = ''4''"
  by (simp add: decimal.simps)

lemma mni_names1: "lookups module_globals
   [''Workflow'', ''pe'', ''niu'', ''GenerateSamplingReference'', ''TEMPLATE_MAP''] = Inr ()"
  by (simp add: module_globals_def)

lemma mni_names2: "lookups module_globals
           [''op'', ''nid'', ''ApplyTransforms'', ''DEFAULT_MEMORY_MIN_GB'', ''_first'',
            ''MultiApplyTransforms'', ''Merge'', ''init_bold_reference_wf''] = Inr ()"
  by (simp add: module_globals_def)

lemma init_bold_mni_trans_wf_eq:
  "init_bold_mni_trans_wf e template mem omp name grid uc uf =
     (case map_of (TEMPLATE_MAP e) template of
        None \<Rightarrow> Inl (KeyError template)
      | Some ts \<Rightarrow> Inr (bold_mni_trans_graph e template ts mem omp name grid uc uf))"
  unfolding init_bold_mni_trans_wf_def mni_names1 mni_names2 bind_def
  by (simp split: option.splits)

lemma b_conns_new [simp]: "b_conns (new v n b) = b_conns b"
  by (simp add: new_def)
lemma b_nodes_new [simp]: "b_nodes (new v n b) = b_nodes b"
  by (simp add: new_def)
lemma b_conns_set_input [simp]: "b_conns (set_input v f x b) = b_conns b"
  by (simp add: set_input_def split: option.splits)
lemma b_nodes_set_input [simp]: "b_nodes (set_input v f x b) = b_nodes b"
  by (simp add: set_input_def split: option.splits)
lemma b_conns_set_desc [simp]: "b_conns (set_desc v d b) = b_conns b"
  by (simp add: set_desc_def split: option.splits)
lemma b_nodes_set_desc [simp]: "b_nodes (set_desc v d b) = b_nodes b"
  by (simp add: set_desc_def split: option.splits)
lemma wf_conns_finish [simp]: "wf_conns (finish b) = b_conns b"
  by (simp add: finish_def)
lemma b_conns_connect1 [simp]: "b_conns (connect1 (s, d, ports) b) =
   b_conns b @ map (\<lambda>((out, fn), inp). \<lparr>c_src = s, c_out = out, c_fn = fn, c_dst = d, c_in = inp\<rparr>) ports"
  by simp
lemma b_nodes_connect1 [simp]: "b_nodes (connect1 (s, d, ports) b) = add_node d (add_node s (b_nodes b))"
  by simp
lemma store_connect1 [simp]: "store (connect1 c b) = store b"
  by (cases c) simp
lemma b_name_connect1 [simp]: "b_name (connect1 c b) = b_name b"
  by (cases c) simp
lemma b_desc_connect1 [simp]: "b_desc (connect1 c b) = b_desc b"
  by (cases c) simp
declare connect1.simps [simp del]
lemma store_connect [simp]: "store (connect cs b) = store b"
  by (induction cs arbitrary: b) auto

lemma map_of_graph_nodes:
  "map_of (concat (map (\<lambda>v. case f v of None \<Rightarrow> [] | Some n \<Rightarrow> [(v, n)]) vs)) x =
     (if x \<in> set vs then f x else None)"
  by (induction vs) (auto split: option.splits)

lemma wf_node_finish: "wf_node (finish b) v = (if v \<in> set (b_nodes b) then store b v else None)"
  by (simp add: wf_node_def finish_def map_of_graph_nodes)

lemma mni_graph_conns:
  "wf_conns (bold_mni_trans_graph e template ts mem omp name grid uc uf) =
    [\<lparr>c_src = Inputnode, c_out = ''hmc_xforms'', c_fn = None, c_dst = Merge_xforms,
       c_in = (if uf then ''in4'' else ''in3'')\<rparr>]
    @ (if uf then [\<lparr>c_src = Inputnode, c_out = ''fieldwarp'', c_fn = None, c_dst = Merge_xforms,
       c_in = ''in3''\<rparr>] else [])
    @ [\<lparr>c_src = Inputnode, c_out = ''bold_split'', c_fn = Some Fn_first, c_dst = Gen_ref, c_in = ''moving_image''\<rparr>,
       \<lparr>c_src = Inputnode, c_out = ''bold_mask'', c_fn = None, c_dst = Mask_mni_tfm, c_in = ''input_image''\<rparr>,
       \<lparr>c_src = Inputnode, c_out = ''t1_2_mni_forward_transform'', c_fn = None, c_dst = Mask_merge_tfms, c_in = ''in1''\<rparr>,
       \<lparr>c_src = Inputnode, c_out = ''itk_bold_to_t1'', c_fn = Some Fn_aslist_mni, c_dst = Mask_merge_tfms, c_in = ''in2''\<rparr>,
       \<lparr>c_src = Mask_merge_tfms, c_out = ''out'', c_fn = None, c_dst = Mask_mni_tfm, c_in = ''transforms''\<rparr>,
       \<lparr>c_src = Mask_mni_tfm, c_out = ''output_image'', c_fn = None, c_dst = Outputnode, c_in = ''bold_mask_mni''\<rparr>,
       \<lparr>c_src = Inputnode, c_out = ''t1_2_mni_forward_transform'', c_fn = None, c_dst = Merge_xforms, c_in = ''in1''\<rparr>,
       \<lparr>c_src = Inputnode, c_out = ''itk_bold_to_t1'', c_fn = Some Fn_aslist_mni, c_dst = Merge_xforms, c_in = ''in2''\<rparr>,
       \<lparr>c_src = Merge_xforms, c_out = ''out'', c_fn = None, c_dst = Bold_to_mni_transform, c_in = ''transforms''\<rparr>,
       \<lparr>c_src = Inputnode, c_out = ''name_source'', c_fn = None, c_dst = Merge_node, c_in = ''header_source''\<rparr>,
       \<lparr>c_src = Inputnode, c_out = ''bold_split'', c_fn = None, c_dst = Bold_to_mni_transform, c_in = ''input_image''\<rparr>,
       \<lparr>c_src = Bold_to_mni_transform, c_out = ''out_files'', c_fn = None, c_dst = Merge_node, c_in = ''in_files''\<rparr>,
       \<lparr>c_src = Merge_node, c_out = ''out_file'', c_fn = None, c_dst = Gen_final_ref, c_in = ''inputnode.bold_file''\<rparr>,
       \<lparr>c_src = Mask_mni_tfm, c_out = ''output_image'', c_fn = None, c_dst = Gen_final_ref, c_in = ''inputnode.bold_mask''\<rparr>,
       \<lparr>c_src = Merge_node, c_out = ''out_file'', c_fn = None, c_dst = Outputnode, c_in = ''bold_mni''\<rparr>,
       \<lparr>c_src = Gen_final_ref, c_out = ''outputnode.ref_image'', c_fn = None, c_dst = Outputnode, c_in = ''bold_mni_ref''\<rparr>]
    @ (if grid = ''native'' then
       [\<lparr>c_src = Gen_ref, c_out = ''out_file'', c_fn = None, c_dst = Mask_mni_tfm, c_in = ''reference_image''\<rparr>,
        \<lparr>c_src = Gen_ref, c_out = ''out_file'', c_fn = None, c_dst = Bold_to_mni_transform, c_in = ''reference_image''\<rparr>]
       else [])"
  by (simp add: bold_mni_trans_graph_def Let_def decimal_3 decimal_4 Workflow_def)


lemma store_new [simp]: "store (new v n b) = (store b)(v \<mapsto> n)"
  by (simp add: new_def)
lemma store_set_input [simp]: "store (set_input v f x b) v' =
   (if v' = v then map_option (\<lambda>n. n\<lparr>inputs := assoc_set f x (inputs n)\<rparr>) (store b v)
    else store b v')"
  by (simp add: set_input_def split: option.splits)
lemma store_set_desc [simp]: "store (set_desc v d b) v' =
   (if v' = v then map_option (\<lambda>n. n\<lparr>desc := d\<rparr>) (store b v) else store b v')"
  by (simp add: set_desc_def split: option.splits)

lemma add_node_Nil [simp]: "add_node v [] = [v]"
  by (simp add: add_node_def)
lemma add_node_Cons [simp]: "add_node v (x # xs) = (if v = x then x # xs else x # add_node v xs)"
  by (simp add: add_node_def)

lemma mni_b_nodes:
  "map fst (wf_nodes (bold_mni_trans_graph e template ts mem omp name grid uc uf)) =
     [Inputnode, Merge_xforms, Gen_ref, Mask_mni_tfm, Mask_merge_tfms, Outputnode,
      Bold_to_mni_transform, Merge_node, Gen_final_ref]"
  apply (cases uf; cases "grid = ''native''")
  apply (simp_all add: bold_mni_trans_graph_def finish_def Let_def Workflow_def)
  done

lemma mni_node_merge_xforms:
  "wf_node (bold_mni_trans_graph e template ts mem omp name grid uc uf) Merge_xforms =
     Some (Node (Merge_niu (if uf then 4 else 3)) [] ''merge_xforms''
             (Some DEFAULT_MEMORY_MIN_GB) None True)"
  apply (cases uf; cases "grid = ''native''")
  apply (simp_all add: bold_mni_trans_graph_def wf_node_finish Let_def Workflow_def)
  done

lemma mni_node_mask_mni_tfm:
  "wf_node (bold_mni_trans_graph e template ts mem omp name grid uc uf) Mask_mni_tfm =
     Some (Node ApplyTransforms
             ([(''interpolation'', PStr ''MultiLabel''), (''float'', PBool True)]
              @ (if grid = ''native'' then []
                 else if grid = ''1mm'' \<or> grid = ''2mm''
                 then [(''reference_image'',
                        PStr (op_join (get_dataset e ts) (grid @ ''_brainmask.nii.gz'')))]
                 else [(''reference_image'', PStr grid)]))
             ''mask_mni_tfm'' (Some (IntNum 1)) None False)"
  apply (cases uf; cases "grid = ''native''"; cases "grid = ''1mm'' \<or> grid = ''2mm''")
  apply (simp_all add: bold_mni_trans_graph_def wf_node_finish Let_def Workflow_def Node_def)
  done

lemma mni_node_bold_to_mni_transform:
  "wf_node (bold_mni_trans_graph e template ts mem omp name grid uc uf) Bold_to_mni_transform =
     Some (Node MultiApplyTransforms
             ([(''interpolation'', PStr ''LanczosWindowedSinc''), (''float'', PBool True),
               (''copy_dtype'', PBool True)]
              @ (if grid = ''native'' then []
                 else if grid = ''1mm'' \<or> grid = ''2mm''
                 then [(''reference_image'',
                        PStr (op_join (get_dataset e ts) (grid @ ''_T1.nii.gz'')))]
                 else [(''reference_image'', PStr grid)]))
             ''bold_to_mni_transform'' (Some (Times (Times (Num mem) (IntNum 3)) (IntNum omp))) (Some omp) False)"
  apply (cases uf; cases "grid = ''native''"; cases "grid = ''1mm'' \<or> grid = ''2mm''")
  apply (simp_all add: bold_mni_trans_graph_def wf_node_finish Let_def Workflow_def Node_def)
  done


subsection \<open>Evaluation of the dwi graph\<close>

lemma dwi_names_unbound:
  "lookups module_globals (dwi_preproc_trans_names uf sf) = Inl (NameError ''afni'')"
  by (simp add: dwi_preproc_trans_names_def module_globals_def)

lemma dwi_names_bound:
  "lookups (''afni'' # ''NiftiInfo'' # module_globals) (dwi_preproc_trans_names uf sf) = Inr ()"
  by (simp add: dwi_preproc_trans_names_def module_globals_def)

lemma dwi_graph_conns:
  "wf_conns (dwi_preproc_trans_graph e mem omp name uc uf sf interp) =
    [\<lparr>c_src = Inputnode, c_out = ''name_source'', c_fn = None, c_dst = Merge_node, c_in = ''header_source''\<rparr>,
     \<lparr>c_src = Bold_transform, c_out = ''out_files'', c_fn = None, c_dst = Merge_node, c_in = ''in_files''\<rparr>,
     \<lparr>c_src = Merge_node, c_out = ''out_file'', c_fn = None, c_dst = Bold_reference_wf, c_in = ''inputnode.bold_file''\<rparr>,
     \<lparr>c_src = Merge_node, c_out = ''out_file'', c_fn = None, c_dst = Outputnode, c_in = ''bold''\<rparr>,
     \<lparr>c_src = Bold_reference_wf, c_out = ''outputnode.ref_image'', c_fn = None, c_dst = Outputnode, c_in = ''bold_ref''\<rparr>,
     \<lparr>c_src = Bold_reference_wf, c_out = ''outputnode.ref_image_brain'', c_fn = None, c_dst = Outputnode, c_in = ''bold_ref_brain''\<rparr>,
     \<lparr>c_src = Bold_reference_wf, c_out = ''outputnode.bold_mask'', c_fn = None, c_dst = Outputnode, c_in = ''bold_mask''\<rparr>]
    @ (if sf then
        [\<lparr>c_src = Inputnode, c_out = ''bold_file'', c_fn = None, c_dst = Bold_split, c_in = ''in_file''\<rparr>,
         \<lparr>c_src = Bold_split, c_out = ''out_files'', c_fn = None, c_dst = Bold_transform, c_in = ''input_image''\<rparr>,
         \<lparr>c_src = Bold_split, c_out = ''out_files'', c_fn = Some Fn_first, c_dst = Bold_transform, c_in = ''reference_image''\<rparr>]
       else
        [\<lparr>c_src = Inputnode, c_out = ''bold_file'', c_fn = None, c_dst = Bold_transform, c_in = ''input_image''\<rparr>,
         \<lparr>c_src = Inputnode, c_out = ''bold_file'', c_fn = Some Fn_first, c_dst = Bold_transform, c_in = ''reference_image''\<rparr>])
    @ (if uf then
        [\<lparr>c_src = Inputnode, c_out = ''fieldwarp'', c_fn = None, c_dst = Merge_xforms, c_in = ''in1''\<rparr>,
         \<lparr>c_src = Inputnode, c_out = ''hmc_xforms'', c_fn = None, c_dst = Merge_xforms, c_in = ''in2''\<rparr>,
         \<lparr>c_src = Merge_xforms, c_out = ''out'', c_fn = None, c_dst = Bold_transform, c_in = ''transforms''\<rparr>]
       else
        [\<lparr>c_src = Inputnode, c_out = ''hmc_xforms'', c_fn = Some Fn_aslist_dwi, c_dst = Bold_transform, c_in = ''transforms''\<rparr>])"
  apply (cases uf; cases sf)
  apply (simp_all add: dwi_preproc_trans_graph_def Let_def Workflow_def)
  done

lemma dwi_graph_nodes:
  "map fst (wf_nodes (dwi_preproc_trans_graph e mem omp name uc uf sf interp)) =
     [Inputnode, Merge_node, Bold_transform, Bold_reference_wf, Outputnode]
     @ (if sf then [Bold_split] else []) @ (if uf then [Merge_xforms] else [])"
  apply (cases uf; cases sf)
  apply (simp_all add: dwi_preproc_trans_graph_def finish_def Let_def Workflow_def)
  done

lemma dwi_node_bold_split:
  "wf_node (dwi_preproc_trans_graph e mem omp name uc uf sf interp) Bold_split =
     (if sf then Some (Node FSLSplit [(''dimension'', PStr ''t'')] ''bold_split''
                         (Some (Times (Num mem) (IntNum 3))) None False)
      else None)"
  apply (cases uf; cases sf)
  apply (simp_all add: dwi_preproc_trans_graph_def wf_node_finish Let_def Workflow_def)
  done


lemma merge_slots_3: "merge_slots 3 = [''in1'', ''in2'', ''in3'']"
  by code_simp
lemma merge_slots_4: "merge_slots 4 = [''in1'', ''in2'', ''in3'', ''in4'']"
  by code_simp

lemma init_bold_mni_trans_wf_InrD:
  "init_bold_mni_trans_wf e template mem omp name grid uc uf = Inr w \<Longrightarrow>
   \<exists>ts. map_of (TEMPLATE_MAP e) template = Some ts \<and>
        w = bold_mni_trans_graph e template ts mem omp name grid uc uf"
  by (auto simp: init_bold_mni_trans_wf_eq split: option.splits)

lemma example_env_returns:
  "init_bold_mni_trans_wf example_env ''MNI152NLin2009cAsym'' mem omp name grid uc uf =
     Inr (bold_mni_trans_graph example_env ''MNI152NLin2009cAsym'' ''mni_icbm152_nlin_asym_09c''
            mem omp name grid uc uf)"
  by (simp add: init_bold_mni_trans_wf_eq example_env_def)


lemma init_dwi_preproc_trans_wf_in_bound:
  "init_dwi_preproc_trans_wf_in (''afni'' # ''NiftiInfo'' # module_globals) e mem omp name uc uf
       sf interp =
     Inr (dwi_preproc_trans_graph e mem omp name uc uf sf interp)"
  unfolding init_dwi_preproc_trans_wf_in_def dwi_names_bound bind_def by simp

lemma nested_list_neq: "PList [PList l] \<noteq> PList l"
proof
  assume "PList [PList l] = PList l"
  then have "size (PList [PList l]) = size (PList l)" by simp
  then show False by simp
qed

text \<open>With the two unbound names bound, the split branch of
  \<^verbatim>\<open>init_dwi_preproc_trans_wf\<close> wires the graph as lines 317-332 say.\<close>

lemma dwi_split_wiring:
  "(Bold_split \<in> set (map fst (wf_nodes (dwi_preproc_trans_graph e mem omp name uc uf sf interp)))
      \<longleftrightarrow> sf)
   \<and> feeds (dwi_preproc_trans_graph e mem omp name uc uf sf interp) Bold_split ''in_file'' =
       (if sf then [(Inputnode, ''bold_file'', None)] else [])
   \<and> feeds (dwi_preproc_trans_graph e mem omp name uc uf sf interp) Bold_transform
         ''input_image'' =
       (if sf then [(Bold_split, ''out_files'', None)] else [(Inputnode, ''bold_file'', None)])
   \<and> feeds (dwi_preproc_trans_graph e mem omp name uc uf sf interp) Bold_transform
         ''reference_image'' =
       (if sf then [(Bold_split, ''out_files'', Some Fn_first)]
        else [(Inputnode, ''bold_file'', Some Fn_first)])"
  by (cases uf; cases sf; simp add: dwi_graph_nodes feeds_def dwi_graph_conns)

text \<open>\<^verbatim>\<open>_aslist\<close> of \<^verbatim>\<open>init_dwi_preproc_trans_wf\<close> wraps every argument, a list
  included, and the branch \<^verbatim>\<open>use_fieldwarp=False\<close> declares it on the connection of
  \<^verbatim>\<open>hmc_xforms\<close> into \<^verbatim>\<open>bold_transform\<close>, in the graph the body describes once the
  two unbound names are bound.\<close>

lemma aslist_dwi_always_wraps:
  "aslist_dwi v = PList [v]
   \<and> aslist_dwi (PList l) = PList [PList l]
   \<and> aslist_dwi (PList l) \<noteq> PList l
   \<and> aslist_dwi (aslist_dwi v) \<noteq> aslist_dwi v
   \<and> aslist_dwi (PList l) \<noteq> aslist_mni (PList l)
   \<and> feeds (dwi_preproc_trans_graph e mem omp name uc False sf interp) Bold_transform
        ''transforms'' = [(Inputnode, ''hmc_xforms'', Some Fn_aslist_dwi)]
   \<and> apply_fn (Some Fn_aslist_dwi) (PList l) = Inr (PList [PList l])"
proof -
  have "feeds (dwi_preproc_trans_graph e mem omp name uc False sf interp) Bold_transform
        ''transforms'' = [(Inputnode, ''hmc_xforms'', Some Fn_aslist_dwi)]"
    by (cases sf; simp add: feeds_def dwi_graph_conns)
  moreover have "PList [PList [v]] \<noteq> PList [v]"
    by (rule nested_list_neq)
  ultimately show ?thesis
    using nested_list_neq [of l] by (simp add: aslist_dwi_def aslist_mni_def)
qed

section \<open>The claims\<close>

text \<open>Claim C1. The claim: for every valid parameter combination, calling
  \<^verbatim>\<open>init_dwi_preproc_trans_wf\<close> succeeds without raising and returns the workflow graph.
  The code: the body evaluates \<^verbatim>\<open>afni.Autobox()\<close> at its second statement, and the
  module never binds \<^verbatim>\<open>afni\<close> (nor \<^verbatim>\<open>NiftiInfo\<close>), so every call raises
  \<open>NameError\<close>, whatever the arguments.\<close>

theorem init_dwi_preproc_trans_wf_raises:
  "init_dwi_preproc_trans_wf e mem omp name uc uf sf interp = Inl (NameError ''afni'')"
  unfolding init_dwi_preproc_trans_wf_def init_dwi_preproc_trans_wf_in_def dwi_names_unbound
    bind_def
  by simp

text \<open>Claim C2. In the workflow that \<^verbatim>\<open>init_bold_mni_trans_wf\<close> returns, the node
  \<^verbatim>\<open>merge_xforms\<close> has the input slots \<^verbatim>\<open>in1..in4\<close> when \<^verbatim>\<open>use_fieldwarp\<close> holds
  and \<^verbatim>\<open>in1..in3\<close> otherwise; \<^verbatim>\<open>hmc_xforms\<close> is connected to the last slot and to no
  other; \<^verbatim>\<open>fieldwarp\<close> is connected to \<^verbatim>\<open>in3\<close> exactly when \<^verbatim>\<open>use_fieldwarp\<close>
  holds, and to no slot otherwise.\<close>

theorem merge_xforms_slots:
  assumes "init_bold_mni_trans_wf e template mem omp name grid uc uf = Inr w"
  shows "map_option (\<lambda>n. input_slots (interface n)) (wf_node w Merge_xforms) =
           Some (if uf then [''in1'', ''in2'', ''in3'', ''in4''] else [''in1'', ''in2'', ''in3''])
       \<and> wired w Inputnode ''hmc_xforms'' Merge_xforms = [if uf then ''in4'' else ''in3'']
       \<and> wired w Inputnode ''fieldwarp'' Merge_xforms = (if uf then [''in3''] else [])
       \<and> ((Inputnode, ''fieldwarp'', None) \<in> set (feeds w Merge_xforms ''in3'') \<longleftrightarrow> uf)"
proof -
  from assms obtain ts where w: "w = bold_mni_trans_graph e template ts mem omp name grid uc uf"
    by (auto dest: init_bold_mni_trans_wf_InrD)
  have 1: "map_option (\<lambda>n. input_slots (interface n)) (wf_node w Merge_xforms) =
           Some (if uf then [''in1'', ''in2'', ''in3'', ''in4''] else [''in1'', ''in2'', ''in3''])"
    by (simp add: w mni_node_merge_xforms Node_def merge_slots_3 merge_slots_4)
  have 2: "wired w Inputnode ''hmc_xforms'' Merge_xforms = [if uf then ''in4'' else ''in3'']"
    by (simp add: w wired_def mni_graph_conns)
  have 3: "wired w Inputnode ''fieldwarp'' Merge_xforms = (if uf then [''in3''] else [])"
    by (simp add: w wired_def mni_graph_conns)
  have "feeds w Merge_xforms ''in3'' =
          [if uf then (Inputnode, ''fieldwarp'', None) else (Inputnode, ''hmc_xforms'', None)]"
    by (cases uf; cases "grid = ''native''"; simp add: w feeds_def mni_graph_conns)
  then have 4: "(Inputnode, ''fieldwarp'', None) \<in> set (feeds w Merge_xforms ''in3'') \<longleftrightarrow> uf"
    by (cases uf) simp_all
  from 1 2 3 4 show ?thesis by blast
qed

theorem merge_xforms_slots_witness:
  "init_bold_mni_trans_wf example_env ''MNI152NLin2009cAsym'' 3 1 ''bold_mni_trans_wf'' ''2mm''
       True True =
     Inr (bold_mni_trans_graph example_env ''MNI152NLin2009cAsym'' ''mni_icbm152_nlin_asym_09c''
            3 1 ''bold_mni_trans_wf'' ''2mm'' True True)
   \<and> wired (bold_mni_trans_graph example_env ''MNI152NLin2009cAsym''
              ''mni_icbm152_nlin_asym_09c'' 3 1 ''bold_mni_trans_wf'' ''2mm'' True True)
        Inputnode ''hmc_xforms'' Merge_xforms = [''in4'']
   \<and> wired (bold_mni_trans_graph example_env ''MNI152NLin2009cAsym''
              ''mni_icbm152_nlin_asym_09c'' 3 1 ''bold_mni_trans_wf'' ''2mm'' True True)
        Inputnode ''fieldwarp'' Merge_xforms = [''in3'']"
  using merge_xforms_slots [OF example_env_returns, of 3 1 "''bold_mni_trans_wf''" "''2mm''" True True]
    example_env_returns [of 3 1 "''bold_mni_trans_wf''" "''2mm''" True True]
  by simp



text \<open>Claim C3. The slots of \<^verbatim>\<open>merge_xforms\<close>, in order, are fed by
  \<^verbatim>\<open>t1_2_mni_forward_transform\<close>, by \<^verbatim>\<open>itk_bold_to_t1\<close> through \<^verbatim>\<open>_aslist\<close> (which
  always delivers a list), by \<^verbatim>\<open>fieldwarp\<close> only when \<^verbatim>\<open>use_fieldwarp\<close> holds, and
  last by \<^verbatim>\<open>hmc_xforms\<close>; the merged list is the only source of the \<^verbatim>\<open>transforms\<close>
  input of \<^verbatim>\<open>bold_to_mni_transform\<close>.\<close>

theorem transform_order:
  assumes "init_bold_mni_trans_wf e template mem omp name grid uc uf = Inr w"
  shows "map_option (\<lambda>n. map (feeds w Merge_xforms) (input_slots (interface n)))
           (wf_node w Merge_xforms) =
           Some ([[(Inputnode, ''t1_2_mni_forward_transform'', None)],
                  [(Inputnode, ''itk_bold_to_t1'', Some Fn_aslist_mni)]]
                 @ (if uf then [[(Inputnode, ''fieldwarp'', None)]] else [])
                 @ [[(Inputnode, ''hmc_xforms'', None)]])
       \<and> feeds w Bold_to_mni_transform ''transforms'' = [(Merge_xforms, ''out'', None)]
       \<and> apply_fn (Some Fn_aslist_mni) v = Inr (aslist_mni v)
       \<and> (\<exists>xs. aslist_mni v = PList xs)"
proof -
  from assms obtain ts where w: "w = bold_mni_trans_graph e template ts mem omp name grid uc uf"
    by (auto dest: init_bold_mni_trans_wf_InrD)
  have 1: "map_option (\<lambda>n. map (feeds w Merge_xforms) (input_slots (interface n)))
           (wf_node w Merge_xforms) =
           Some ([[(Inputnode, ''t1_2_mni_forward_transform'', None)],
                  [(Inputnode, ''itk_bold_to_t1'', Some Fn_aslist_mni)]]
                 @ (if uf then [[(Inputnode, ''fieldwarp'', None)]] else [])
                 @ [[(Inputnode, ''hmc_xforms'', None)]])"
    by (cases uf; cases "grid = ''native''";
        simp add: w mni_node_merge_xforms Node_def merge_slots_3 merge_slots_4 feeds_def
          mni_graph_conns)
  have 2: "feeds w Bold_to_mni_transform ''transforms'' = [(Merge_xforms, ''out'', None)]"
    by (cases uf; cases "grid = ''native''"; simp add: w feeds_def mni_graph_conns)
  have 3: "\<exists>xs. aslist_mni v = PList xs"
    by (cases v) (simp_all add: aslist_mni_def)
  from 1 2 3 show ?thesis by simp
qed

theorem transform_order_witness:
  "init_bold_mni_trans_wf example_env ''MNI152NLin2009cAsym'' 3 1 ''bold_mni_trans_wf'' ''2mm''
       True False =
     Inr (bold_mni_trans_graph example_env ''MNI152NLin2009cAsym'' ''mni_icbm152_nlin_asym_09c''
            3 1 ''bold_mni_trans_wf'' ''2mm'' True False)
   \<and> feeds (bold_mni_trans_graph example_env ''MNI152NLin2009cAsym'' ''mni_icbm152_nlin_asym_09c''
            3 1 ''bold_mni_trans_wf'' ''2mm'' True False)
        Bold_to_mni_transform ''transforms'' = [(Merge_xforms, ''out'', None)]
   \<and> aslist_mni (PStr ''bold_to_t1.txt'') = PList [PStr ''bold_to_t1.txt'']"
  using transform_order [OF example_env_returns, of 3 1 "''bold_mni_trans_wf''" "''2mm''" True False
      "PStr ''bold_to_t1.txt''"]
    example_env_returns [of 3 1 "''bold_mni_trans_wf''" "''2mm''" True False]
  by (simp add: aslist_mni_def)

text \<open>Claim C4. The output grid is a three-way choice: for \<^verbatim>\<open>'native'\<close> the reference
  images of \<^verbatim>\<open>mask_mni_tfm\<close> and \<^verbatim>\<open>bold_to_mni_transform\<close> are connected to the
  output of \<^verbatim>\<open>gen_ref\<close> and not set as inputs; for \<^verbatim>\<open>'1mm'\<close> and \<^verbatim>\<open>'2mm'\<close> they
  are set to the brain mask and the T1 image of that grid in the template dataset; for any
  other string they are both set to that string; in the last two cases no connection feeds
  them.\<close>

theorem template_out_grid_dispatch:
  assumes "init_bold_mni_trans_wf e template mem omp name grid uc uf = Inr w"
  shows "\<exists>ts nm nb.
           map_of (TEMPLATE_MAP e) template = Some ts
         \<and> wf_node w Mask_mni_tfm = Some nm \<and> wf_node w Bold_to_mni_transform = Some nb
         \<and> (if grid = ''native'' then
               feeds w Mask_mni_tfm ''reference_image'' = [(Gen_ref, ''out_file'', None)]
             \<and> feeds w Bold_to_mni_transform ''reference_image'' = [(Gen_ref, ''out_file'', None)]
             \<and> map_of (inputs nm) ''reference_image'' = None
             \<and> map_of (inputs nb) ''reference_image'' = None
            else
               feeds w Mask_mni_tfm ''reference_image'' = []
             \<and> feeds w Bold_to_mni_transform ''reference_image'' = []
             \<and> (if grid = ''1mm'' \<or> grid = ''2mm'' then
                   map_of (inputs nm) ''reference_image'' =
                     Some (PStr (op_join (get_dataset e ts) (grid @ ''_brainmask.nii.gz'')))
                 \<and> map_of (inputs nb) ''reference_image'' =
                     Some (PStr (op_join (get_dataset e ts) (grid @ ''_T1.nii.gz'')))
                else
                   map_of (inputs nm) ''reference_image'' = Some (PStr grid)
                 \<and> map_of (inputs nb) ''reference_image'' = Some (PStr grid)))"
proof -
  from assms obtain ts where ts: "map_of (TEMPLATE_MAP e) template = Some ts"
    and w: "w = bold_mni_trans_graph e template ts mem omp name grid uc uf"
    by (auto dest: init_bold_mni_trans_wf_InrD)
  have fm: "feeds w Mask_mni_tfm ''reference_image'' =
              (if grid = ''native'' then [(Gen_ref, ''out_file'', None)] else [])"
    by (cases uf; cases "grid = ''native''"; simp add: w feeds_def mni_graph_conns)
  have fb: "feeds w Bold_to_mni_transform ''reference_image'' =
              (if grid = ''native'' then [(Gen_ref, ''out_file'', None)] else [])"
    by (cases uf; cases "grid = ''native''"; simp add: w feeds_def mni_graph_conns)
  let ?nm = "Node ApplyTransforms
             ([(''interpolation'', PStr ''MultiLabel''), (''float'', PBool True)]
              @ (if grid = ''native'' then []
                 else if grid = ''1mm'' \<or> grid = ''2mm''
                 then [(''reference_image'',
                        PStr (op_join (get_dataset e ts) (grid @ ''_brainmask.nii.gz'')))]
                 else [(''reference_image'', PStr grid)]))
             ''mask_mni_tfm'' (Some (IntNum 1)) None False"
  let ?nb = "Node MultiApplyTransforms
             ([(''interpolation'', PStr ''LanczosWindowedSinc''), (''float'', PBool True),
               (''copy_dtype'', PBool True)]
              @ (if grid = ''native'' then []
                 else if grid = ''1mm'' \<or> grid = ''2mm''
                 then [(''reference_image'',
                        PStr (op_join (get_dataset e ts) (grid @ ''_T1.nii.gz'')))]
                 else [(''reference_image'', PStr grid)]))
             ''bold_to_mni_transform'' (Some (Times (Times (Num mem) (IntNum 3)) (IntNum omp))) (Some omp) False"
  have nm: "wf_node w Mask_mni_tfm = Some ?nm"
    unfolding w by (rule mni_node_mask_mni_tfm)
  have nb: "wf_node w Bold_to_mni_transform = Some ?nb"
    unfolding w by (rule mni_node_bold_to_mni_transform)
  have im: "map_of (inputs ?nm) ''reference_image'' =
              (if grid = ''native'' then None
               else if grid = ''1mm'' \<or> grid = ''2mm''
               then Some (PStr (op_join (get_dataset e ts) (grid @ ''_brainmask.nii.gz'')))
               else Some (PStr grid))"
    by (simp add: Node_def)
  have ib: "map_of (inputs ?nb) ''reference_image'' =
              (if grid = ''native'' then None
               else if grid = ''1mm'' \<or> grid = ''2mm''
               then Some (PStr (op_join (get_dataset e ts) (grid @ ''_T1.nii.gz'')))
               else Some (PStr grid))"
    by (simp add: Node_def)
  show ?thesis
    apply (rule exI [of _ ts])
    apply (rule exI [of _ ?nm])
    apply (rule exI [of _ ?nb])
    apply (simp only: ts nm nb fm fb im ib)
    apply simp
    done
qed

theorem template_out_grid_dispatch_witness:
  "init_bold_mni_trans_wf example_env ''MNI152NLin2009cAsym'' 3 1 ''bold_mni_trans_wf'' ''1mm''
       True False =
     Inr (bold_mni_trans_graph example_env ''MNI152NLin2009cAsym'' ''mni_icbm152_nlin_asym_09c''
            3 1 ''bold_mni_trans_wf'' ''1mm'' True False)
   \<and> map_option (\<lambda>n. map_of (inputs n) ''reference_image'')
        (wf_node (bold_mni_trans_graph example_env ''MNI152NLin2009cAsym'' ''mni_icbm152_nlin_asym_09c''
            3 1 ''bold_mni_trans_wf'' ''1mm'' True False) Mask_mni_tfm) =
       Some (Some (PStr ''/templates/mni_icbm152_nlin_asym_09c/1mm_brainmask.nii.gz''))
   \<and> map_option (\<lambda>n. map_of (inputs n) ''reference_image'')
        (wf_node (bold_mni_trans_graph example_env ''MNI152NLin2009cAsym'' ''mni_icbm152_nlin_asym_09c''
            3 1 ''bold_mni_trans_wf'' ''1mm'' True False) Bold_to_mni_transform) =
       Some (Some (PStr ''/templates/mni_icbm152_nlin_asym_09c/1mm_T1.nii.gz''))"
  using template_out_grid_dispatch [OF example_env_returns, of 3 1 "''bold_mni_trans_wf''" "''1mm''"
      True False]
    example_env_returns [of 3 1 "''bold_mni_trans_wf''" "''1mm''" True False]
  by (auto simp: example_env_def op_join_def)


text \<open>Claim C5. The claim: the graph of \<^verbatim>\<open>init_dwi_preproc_trans_wf\<close> holds an
  \<^verbatim>\<open>FSLSplit\<close> node exactly when \<^verbatim>\<open>split_file\<close> holds, wired as lines 317-332 say.
  The code: with \<^verbatim>\<open>split_file=True\<close> (and the defaults otherwise) the call raises
  \<open>NameError\<close> before it reaches these lines, so no graph with a split node is returned.\<close>

theorem init_dwi_preproc_trans_wf_split_raises:
  "init_dwi_preproc_trans_wf example_env 3 1 ''bold_preproc_trans_wf'' True False True
     ''LanczosWindowedSinc'' = Inl (NameError ''afni'')"
  unfolding init_dwi_preproc_trans_wf_def init_dwi_preproc_trans_wf_in_def dwi_names_unbound
    bind_def
  by simp

text \<open>Claim C6. The graph that \<^verbatim>\<open>init_bold_mni_trans_wf\<close> returns has no cycle: no node
  reaches itself through the connections, for every value of the flags.\<close>

theorem bold_mni_trans_acyclic:
  assumes "init_bold_mni_trans_wf e template mem omp name grid uc uf = Inr w"
  shows "\<forall>v. (v, v) \<notin> (wf_edges w)\<^sup>+"
proof -
  from assms obtain ts where w: "w = bold_mni_trans_graph e template ts mem omp name grid uc uf"
    by (auto dest: init_bold_mni_trans_wf_InrD)
  have "wf_edges w \<subseteq> measure topo_rank"
    by (cases uf; cases "grid = ''native''"; simp add: w wf_edges_def mni_graph_conns)
  moreover have "acyclic (measure topo_rank)"
    by (rule wf_acyclic) simp
  ultimately have "acyclic (wf_edges w)"
    by (rule acyclic_subset [rotated])
  then show ?thesis
    by (simp add: acyclic_def)
qed

theorem bold_mni_trans_acyclic_witness:
  "init_bold_mni_trans_wf example_env ''MNI152NLin2009cAsym'' 3 1 ''bold_mni_trans_wf''
       ''native'' True True =
     Inr (bold_mni_trans_graph example_env ''MNI152NLin2009cAsym'' ''mni_icbm152_nlin_asym_09c''
            3 1 ''bold_mni_trans_wf'' ''native'' True True)
   \<and> (Merge_node, Merge_node) \<notin>
       (wf_edges (bold_mni_trans_graph example_env ''MNI152NLin2009cAsym''
                    ''mni_icbm152_nlin_asym_09c'' 3 1 ''bold_mni_trans_wf'' ''native'' True
                    True))\<^sup>+"
  using bold_mni_trans_acyclic [OF example_env_returns, of 3 1 "''bold_mni_trans_wf''"
      "''native''" True True]
    example_env_returns [of 3 1 "''bold_mni_trans_wf''" "''native''" True True]
  by simp

text \<open>Claim C7. \<^verbatim>\<open>_aslist\<close> of \<^verbatim>\<open>init_bold_mni_trans_wf\<close> returns a list unchanged and
  wraps any other value in a one-element list; it is idempotent.\<close>

theorem aslist_mni_idempotent:
  "(isinstance_list v \<longrightarrow> aslist_mni v = v)
   \<and> (\<not> isinstance_list v \<longrightarrow> aslist_mni v = PList [v])
   \<and> aslist_mni (aslist_mni v) = aslist_mni v"
  by (simp add: aslist_mni_def)

theorem aslist_mni_idempotent_witness:
  "isinstance_list (PList [PStr ''a.txt'']) \<and> aslist_mni (PList [PStr ''a.txt'']) = PList [PStr ''a.txt'']
   \<and> \<not> isinstance_list (PStr ''a.txt'') \<and> aslist_mni (PStr ''a.txt'') = PList [PStr ''a.txt'']
   \<and> aslist_mni (aslist_mni (PStr ''a.txt'')) = aslist_mni (PStr ''a.txt'')"
  using aslist_mni_idempotent [of "PList [PStr ''a.txt'']"] aslist_mni_idempotent [of "PStr ''a.txt''"]
  by simp

text \<open>Claim C8. On a non-empty list \<^verbatim>\<open>_first\<close> returns the element at index 0; on a
  list it fails only when the list is empty, and then with \<open>IndexError\<close>.\<close>

theorem first_nonempty:
  "(xs \<noteq> [] \<longrightarrow> first (PList xs) = Inr (xs ! 0))
   \<and> first (PList []) = Inl IndexError
   \<and> ((\<exists>err. first (PList xs) = Inl err) \<longleftrightarrow> xs = [])"
  by (cases xs) simp_all

theorem first_nonempty_witness:
  "[PStr ''vol0.nii'', PStr ''vol1.nii''] \<noteq> []
   \<and> first (PList [PStr ''vol0.nii'', PStr ''vol1.nii'']) = Inr (PStr ''vol0.nii'')
   \<and> first (PList []) = Inl IndexError"
  using first_nonempty [of "[PStr ''vol0.nii'', PStr ''vol1.nii'']"]
  by simp

text \<open>Claim C9. The claim: \<^verbatim>\<open>_aslist\<close> of the \<^verbatim>\<open>use_fieldwarp=False\<close> branch of
  \<^verbatim>\<open>init_dwi_preproc_trans_wf\<close> always wraps its argument, and \<^verbatim>\<open>hmc_xforms\<close>
  supplied as a list reaches \<^verbatim>\<open>bold_transform\<close> nested one level deeper. The code:
  with \<^verbatim>\<open>use_fieldwarp=False\<close> the call raises \<open>NameError\<close> at line 275, before line
  343 defines the helper and before any connection is declared, so no workflow exists in
  which \<^verbatim>\<open>hmc_xforms\<close> reaches \<^verbatim>\<open>bold_transform\<close>.\<close>

theorem init_dwi_preproc_trans_wf_aslist_raises:
  "init_dwi_preproc_trans_wf example_env 3 1 ''bold_preproc_trans_wf'' True False False
     ''LanczosWindowedSinc'' = Inl (NameError ''afni'')"
  unfolding init_dwi_preproc_trans_wf_def init_dwi_preproc_trans_wf_in_def dwi_names_unbound
    bind_def
  by simp



end
